theory Spec2Isabelle
  imports Main
begin

section \<open>JavaScript values, errors and promises\<close>

text \<open>
  The library is JavaScript. A value is one of the primitives or a reference to an object
  in the store. Numbers are restricted to the integers (no fractions, no NaN).
\<close>

datatype jsval =
    JUndefined
  | JNull
  | JBool bool
  | JNum int
  | JStr string
  | JRef nat

text \<open>\<^verbatim>\<open>TypeError(msg)\<close> and \<^verbatim>\<open>Error(msg)\<close>, with or without \<^verbatim>\<open>new\<close>.\<close>

datatype jserror = TypeError string | Error string

text \<open>
  A promise as its eventual state. \<open>Pending\<close> is a promise that never settles.
\<close>

datatype 'a promise = Resolved 'a | Rejected jserror | Pending

text \<open>
  A call either throws synchronously or returns a value (often a promise).
\<close>

datatype 'a completion = Throws jserror | Returns 'a

text \<open>The truthiness test of \<^verbatim>\<open>if (x)\<close> and \<^verbatim>\<open>!x\<close>.\<close>

fun truthy :: "jsval \<Rightarrow> bool" where
  "truthy JUndefined = False"
| "truthy JNull = False"
| "truthy (JBool b) = b"
| "truthy (JNum n) = (n \<noteq> 0)"
| "truthy (JStr s) = (s \<noteq> [])"
| "truthy (JRef a) = True"

fun typeof :: "jsval \<Rightarrow> string" where
  "typeof JUndefined = ''undefined''"
| "typeof JNull = ''object''"
| "typeof (JBool b) = ''boolean''"
| "typeof (JNum n) = ''number''"
| "typeof (JStr s) = ''string''"
| "typeof (JRef a) = ''object''"

text \<open>Decimal digits of a natural number, for template strings.\<close>

function string_of_nat :: "nat \<Rightarrow> string" where
  "string_of_nat n =
     (if n < 10 then [''0123456789'' ! n]
      else string_of_nat (n div 10) @ [''0123456789'' ! (n mod 10)])"
  by pat_completeness auto
termination
  by (relation "measure id") auto

text \<open>
  The string conversion of a template literal \<^verbatim>\<open>`${x}`\<close>. A plain object prints as
  \<^verbatim>\<open>[object Object]\<close>.
\<close>

fun toString :: "jsval \<Rightarrow> string" where
  "toString JUndefined = ''undefined''"
| "toString JNull = ''null''"
| "toString (JBool b) = (if b then ''true'' else ''false'')"
| "toString (JNum n) = (if n < 0 then ''-'' @ string_of_nat (nat (- n)) else string_of_nat (nat n))"
| "toString (JStr s) = s"
| "toString (JRef a) = ''[object Object]''"

section \<open>The store, and the trace of chain interactions\<close>

text \<open>
  An object is its list of own properties; the store is the list of allocated objects,
  and a reference is an index into it. Allocation appends.
\<close>

type_synonym obj = "(string \<times> jsval) list"

text \<open>
  What reaches the contract or the network, in order: building a transaction object
  with \<^verbatim>\<open>contract.methods.m(args)\<close>, a read \<^verbatim>\<open>.call()\<close>, \<^verbatim>\<open>.estimateGas(options)\<close> and
  \<^verbatim>\<open>.send(options)\<close>.
\<close>

datatype event =
    Method string "jsval list"
  | Call
  | EstimateGas obj
  | Send obj

record world =
  heap :: "obj list"
  trace :: "event list"

text \<open>Property read \<^verbatim>\<open>x.k\<close>: \<^verbatim>\<open>undefined\<close> when absent, and on a primitive.\<close>

definition get_prop :: "obj list \<Rightarrow> jsval \<Rightarrow> string \<Rightarrow> jsval" where
  "get_prop h x k =
     (case x of
        JRef a \<Rightarrow>
          (if a < length h then
             (case map_of (h ! a) k of None \<Rightarrow> JUndefined | Some v \<Rightarrow> v)
           else JUndefined)
      | _ \<Rightarrow> JUndefined)"

text \<open>Property write \<^verbatim>\<open>o.k = v\<close> on an object's property list.\<close>

fun set_prop :: "obj \<Rightarrow> string \<Rightarrow> jsval \<Rightarrow> obj" where
  "set_prop [] k v = [(k, v)]"
| "set_prop (p # ps) k v = (if fst p = k then (k, v) # ps else p # set_prop ps k v)"

section \<open>External libraries\<close>

text \<open>
  web3 and bn.js are not part of the repository; what the code uses of them is taken as
  parameters: \<^verbatim>\<open>Web3.utils.isAddress\<close>, the constructor \<^verbatim>\<open>new BN(x)\<close> (which throws or
  yields an integer) and \<^verbatim>\<open>Web3Utils.keccak256\<close> (which throws or yields a value).
\<close>

record externals =
  isAddress :: "jsval \<Rightarrow> bool"
  BN :: "jsval \<Rightarrow> jserror + int"
  keccak256 :: "jsval \<Rightarrow> jserror + jsval"

text \<open>
  A web3 transaction object: the outcome of its three methods. \<open>call\<close> is given the number
  of events that happened before it, so that a chain may answer successive reads
  differently. \<open>estimateGas\<close> and \<open>send\<close> receive the options object and may
  change it.
\<close>

record tx_object =
  call :: "nat \<Rightarrow> jserror + jsval"
  estimateGas :: "obj \<Rightarrow> (jserror + jsval) \<times> obj"
  send :: "obj \<Rightarrow> (jserror + jsval) \<times> obj"

section \<open>Utils\<close>

record HashLock =
  secret :: jsval
  unlockSecret :: jsval
  hashLock :: jsval

text \<open>
  \<^verbatim>\<open>Utils.toHashLock(secretString)\<close>. Either call of \<^verbatim>\<open>keccak256\<close> may throw, and
  \<^verbatim>\<open>toHashLock\<close> then throws: nothing guards the first hash before it is hashed again.
  The local constants \<^verbatim>\<open>unlockSecret\<close> and \<^verbatim>\<open>hashLock\<close> are written \<open>us\<close> and
  \<open>hl\<close>.
\<close>

definition toHashLock :: "externals \<Rightarrow> jsval \<Rightarrow> HashLock completion" where
  "toHashLock ext secretString =
     (case keccak256 ext secretString of
        Inl e \<Rightarrow> Throws e
      | Inr us \<Rightarrow>
          (case keccak256 ext us of
             Inl e \<Rightarrow> Throws e
           | Inr hl \<Rightarrow>
               Returns \<lparr> secret = secretString, unlockSecret = us, hashLock = hl \<rparr>))"

text \<open>
  The own enumerable properties that \<^verbatim>\<open>Object.assign\<close> reads from a source: those of
  an object, the indexed characters of a string, none of any other primitive.
\<close>

definition own_props :: "obj list \<Rightarrow> jsval \<Rightarrow> obj" where
  "own_props h x =
     (case x of
        JRef a \<Rightarrow> (if a < length h then h ! a else [])
      | JStr s \<Rightarrow> zip (map string_of_nat [0..<length s]) (map (\<lambda>c. JStr [c]) s)
      | _ \<Rightarrow> [])"

text \<open>\<^verbatim>\<open>Object.assign(target, source)\<close> on property lists.\<close>

definition assign :: "obj \<Rightarrow> obj \<Rightarrow> obj" where
  "assign target source = foldl (\<lambda>ob (k, v). set_prop ob k v) target source"

text \<open>
  \<^verbatim>\<open>Utils.sendTransaction(tx, txOption)\<close>. The copy \<^verbatim>\<open>txOptions\<close> is a fresh object at
  address \<open>length (heap w)\<close>. When \<^verbatim>\<open>estimateGas\<close> rejects, the \<^verbatim>\<open>async\<close> executor
  throws and neither callback is ever called: the promise stays pending.
\<close>

definition sendTransaction :: "tx_object \<Rightarrow> jsval \<Rightarrow> world \<Rightarrow> jsval promise \<times> world" where
  "sendTransaction tx txOption w =
     (let a = length (heap w);
          w1 = w\<lparr>heap := heap w @ [assign [] (own_props (heap w) txOption)]\<rparr>;
          estimated =
            (if \<not> truthy (get_prop (heap w1) (JRef a) ''gas'') then
               (let (r, ob) = estimateGas tx (heap w1 ! a);
                    w2 = w1\<lparr>heap := (heap w1)[a := ob],
                             trace := trace w1 @ [EstimateGas (heap w1 ! a)]\<rparr>
                in case r of
                     Inl e \<Rightarrow> Inl w2
                   | Inr gas \<Rightarrow> Inr (w2\<lparr>heap := (heap w2)[a := set_prop (heap w2 ! a) ''gas'' gas]\<rparr>))
             else Inr w1)
      in case estimated of
           Inl w2 \<Rightarrow> (Pending, w2)
         | Inr w3 \<Rightarrow>
             (let (r, ob) = send tx (heap w3 ! a);
                  w4 = w3\<lparr>heap := (heap w3)[a := ob], trace := trace w3 @ [Send (heap w3 ! a)]\<rparr>
              in case r of
                   Inl error \<Rightarrow> (Rejected error, w4)
                 | Inr receipt \<Rightarrow> (Resolved receipt, w4)))"

section \<open>Contract calls\<close>

text \<open>
  \<^verbatim>\<open>this.contract.methods.m(args)\<close> builds the transaction object and is recorded;
  \<^verbatim>\<open>tx.call()\<close> queries the chain and is recorded.
\<close>

definition invoke_method ::
  "(string \<Rightarrow> jsval list \<Rightarrow> tx_object) \<Rightarrow> string \<Rightarrow> jsval list \<Rightarrow> world \<Rightarrow> tx_object \<times> world" where
  "invoke_method methods m args w = (methods m args, w\<lparr>trace := trace w @ [Method m args]\<rparr>)"

definition chain_call :: "tx_object \<Rightarrow> world \<Rightarrow> jsval promise \<times> world" where
  "chain_call tx w =
     (case call tx (length (trace w)) of
        Inl e \<Rightarrow> (Rejected e, w\<lparr>trace := trace w @ [Call]\<rparr>)
      | Inr v \<Rightarrow> (Resolved v, w\<lparr>trace := trace w @ [Call]\<rparr>))"

text \<open>
  \<^verbatim>\<open>rawTx.then((tx) => Utils.sendTransaction(tx, txOptions))\<close>: a throw of the raw
  transaction function propagates, a rejection is passed on.
\<close>

definition then_sendTransaction ::
  "tx_object promise completion \<times> world \<Rightarrow> jsval \<Rightarrow> jsval promise completion \<times> world" where
  "then_sendTransaction rw txOptions =
     (case rw of
        (Throws e, w) \<Rightarrow> (Throws e, w)
      | (Returns (Rejected e), w) \<Rightarrow> (Returns (Rejected e), w)
      | (Returns Pending, w) \<Rightarrow> (Returns Pending, w)
      | (Returns (Resolved tx), w) \<Rightarrow>
          (let (p, w') = sendTransaction tx txOptions w in (Returns p, w')))"

text \<open>
  The number of chain reads in a trace, and the number of times the contract method \<open>m\<close>
  was invoked.
\<close>

definition queries :: "world \<Rightarrow> nat" where
  "queries w = length (filter (\<lambda>e. e = Call) (trace w))"


section \<open>EIP20Gateway\<close>

text \<open>
  The instance: its contract's methods and the four memoised fields
  (\<^verbatim>\<open>_bountyAmount\<close>, \<^verbatim>\<open>_baseTokenAddress\<close>, \<^verbatim>\<open>_valueTokenAddress\<close>,
  \<^verbatim>\<open>_stateRootProviderAddress\<close>), \<^verbatim>\<open>undefined\<close> on a new instance.
\<close>

record EIP20Gateway =
  gw_methods :: "string \<Rightarrow> jsval list \<Rightarrow> tx_object"
  gw_bountyAmount :: jsval
  gw_baseTokenAddress :: jsval
  gw_valueTokenAddress :: jsval
  gw_stateRootProviderAddress :: jsval

text \<open>
  \<^verbatim>\<open>EIP20Gateway.stakeRawTx\<close>. The parameter \<^verbatim>\<open>hashLock\<close> is written \<open>hash_lock\<close>
  here and below, and \<^verbatim>\<open>unlockSecret\<close> is written \<open>unlock_secret\<close>.
\<close>

definition stakeRawTx ::
  "externals \<Rightarrow> EIP20Gateway \<Rightarrow> jsval \<Rightarrow> jsval \<Rightarrow> jsval \<Rightarrow> jsval \<Rightarrow> jsval \<Rightarrow> jsval \<Rightarrow> world
     \<Rightarrow> tx_object promise completion \<times> world" where
  "stakeRawTx ext this amount beneficiary gasPrice gasLimit nonce hash_lock w =
     (case BN ext amount of
        Inl e \<Rightarrow> (Throws e, w)
      | Inr n \<Rightarrow>
          if \<not> n > 0 then
            (Returns (Rejected (TypeError
               (''Stake amount must be greater than zero: '' @ toString amount @ ''.''))), w)
          else if \<not> isAddress ext beneficiary then
            (Returns (Rejected (TypeError
               (''Invalid beneficiary address: '' @ toString beneficiary @ ''.''))), w)
          else if gasPrice = JUndefined then
            (Returns (Rejected (TypeError (''Invalid gas price: '' @ toString gasPrice @ ''.''))), w)
          else if gasLimit = JUndefined then
            (Returns (Rejected (TypeError (''Invalid gas limit: '' @ toString gasLimit @ ''.''))), w)
          else if typeof nonce \<noteq> ''string'' then
            (Returns (Rejected (TypeError (''Invalid nonce: '' @ toString nonce @ ''.''))), w)
          else if typeof hash_lock \<noteq> ''string'' then
            (Returns (Rejected (TypeError (''Invalid hash lock: '' @ toString hash_lock @ ''.''))), w)
          else
            (let (tx, w') = invoke_method (gw_methods this) ''stake''
                              [amount, beneficiary, gasPrice, gasLimit, nonce, hash_lock] w
             in (Returns (Resolved tx), w')))"


text \<open>
  The memoised reads of \<^verbatim>\<open>EIP20Gateway\<close>: \<^verbatim>\<open>getBounty\<close>, \<^verbatim>\<open>getBaseToken\<close>,
  \<^verbatim>\<open>getValueToken\<close>, \<^verbatim>\<open>getStateRootProviderAddress\<close>. The field is written in the
  \<^verbatim>\<open>then\<close> callback, so only when the read resolves.
\<close>

definition gateway_getBounty :: "EIP20Gateway \<Rightarrow> world \<Rightarrow> jsval promise \<times> EIP20Gateway \<times> world" where
  "gateway_getBounty this w =
     (if truthy (gw_bountyAmount this) then (Resolved (gw_bountyAmount this), this, w)
      else
        (let (tx, w1) = invoke_method (gw_methods this) ''bounty'' [] w;
             (p, w2) = chain_call tx w1
         in case p of
              Resolved bounty \<Rightarrow> (Resolved bounty, this\<lparr>gw_bountyAmount := bounty\<rparr>, w2)
            | _ \<Rightarrow> (p, this, w2)))"

definition getBaseToken :: "EIP20Gateway \<Rightarrow> world \<Rightarrow> jsval promise \<times> EIP20Gateway \<times> world" where
  "getBaseToken this w =
     (if truthy (gw_baseTokenAddress this) then (Resolved (gw_baseTokenAddress this), this, w)
      else
        (let (tx, w1) = invoke_method (gw_methods this) ''baseToken'' [] w;
             (p, w2) = chain_call tx w1
         in case p of
              Resolved baseToken \<Rightarrow> (Resolved baseToken, this\<lparr>gw_baseTokenAddress := baseToken\<rparr>, w2)
            | _ \<Rightarrow> (p, this, w2)))"

definition getValueToken :: "EIP20Gateway \<Rightarrow> world \<Rightarrow> jsval promise \<times> EIP20Gateway \<times> world" where
  "getValueToken this w =
     (if truthy (gw_valueTokenAddress this) then (Resolved (gw_valueTokenAddress this), this, w)
      else
        (let (tx, w1) = invoke_method (gw_methods this) ''token'' [] w;
             (p, w2) = chain_call tx w1
         in case p of
              Resolved token \<Rightarrow> (Resolved token, this\<lparr>gw_valueTokenAddress := token\<rparr>, w2)
            | _ \<Rightarrow> (p, this, w2)))"

definition gateway_getStateRootProviderAddress ::
  "EIP20Gateway \<Rightarrow> world \<Rightarrow> jsval promise \<times> EIP20Gateway \<times> world" where
  "gateway_getStateRootProviderAddress this w =
     (if truthy (gw_stateRootProviderAddress this) then
        (Resolved (gw_stateRootProviderAddress this), this, w)
      else
        (let (tx, w1) = invoke_method (gw_methods this) ''stateRootProvider'' [] w;
             (p, w2) = chain_call tx w1
         in case p of
              Resolved stateRootProviderAddress \<Rightarrow>
                (Resolved stateRootProviderAddress,
                 this\<lparr>gw_stateRootProviderAddress := stateRootProviderAddress\<rparr>, w2)
            | _ \<Rightarrow> (p, this, w2)))"

text \<open>\<^verbatim>\<open>EIP20Gateway.getNonce\<close>: an invalid address is a rejected promise.\<close>

definition gateway_getNonce ::
  "externals \<Rightarrow> EIP20Gateway \<Rightarrow> jsval \<Rightarrow> world \<Rightarrow> jsval promise completion \<times> world" where
  "gateway_getNonce ext this accountAddress w =
     (if \<not> isAddress ext accountAddress then
        (Returns (Rejected (TypeError
           (''Invalid account address: '' @ toString accountAddress @ ''.''))), w)
      else
        (let (tx, w1) = invoke_method (gw_methods this) ''getNonce'' [accountAddress] w;
             (p, w2) = chain_call tx w1
         in (Returns p, w2)))"

text \<open>\<^verbatim>\<open>EIP20Gateway.getInboxMessageStatus\<close> and \<^verbatim>\<open>getOutboxMessageStatus\<close>\<close>

definition gateway_getInboxMessageStatus :: "EIP20Gateway \<Rightarrow> jsval \<Rightarrow> world \<Rightarrow> jsval promise \<times> world" where
  "gateway_getInboxMessageStatus this messageHash w =
     (if typeof messageHash \<noteq> ''string'' then
        (Rejected (TypeError (''Invalid message hash: '' @ toString messageHash @ ''.'')), w)
      else
        (let (tx, w1) = invoke_method (gw_methods this) ''getInboxMessageStatus'' [messageHash] w
         in chain_call tx w1))"

definition gateway_getOutboxMessageStatus :: "EIP20Gateway \<Rightarrow> jsval \<Rightarrow> world \<Rightarrow> jsval promise \<times> world" where
  "gateway_getOutboxMessageStatus this messageHash w =
     (if typeof messageHash \<noteq> ''string'' then
        (Rejected (TypeError (''Invalid message hash: '' @ toString messageHash @ ''.'')), w)
      else
        (let (tx, w1) = invoke_method (gw_methods this) ''getOutboxMessageStatus'' [messageHash] w
         in chain_call tx w1))"

section \<open>EIP20CoGateway\<close>

text \<open>
  The instance: its contract's methods and the memoised fields \<^verbatim>\<open>_bountyAmount\<close>,
  \<^verbatim>\<open>_utilityToken\<close>, \<^verbatim>\<open>_stateRootProviderAddress\<close>. Operations that both classes
  have carry the class as a prefix.
\<close>

record EIP20CoGateway =
  cgw_methods :: "string \<Rightarrow> jsval list \<Rightarrow> tx_object"
  cgw_bountyAmount :: jsval
  cgw_utilityToken :: jsval
  cgw_stateRootProviderAddress :: jsval

text \<open>\<^verbatim>\<open>EIP20CoGateway.progressRedeemRawTx\<close>\<close>

definition progressRedeemRawTx ::
  "EIP20CoGateway \<Rightarrow> jsval \<Rightarrow> jsval \<Rightarrow> world \<Rightarrow> tx_object promise completion \<times> world" where
  "progressRedeemRawTx this messageHash unlock_secret w =
     (if typeof messageHash \<noteq> ''string'' then
        (Returns (Rejected (TypeError (''Invalid message hash: '' @ toString messageHash @ ''.''))), w)
      else if typeof unlock_secret \<noteq> ''string'' then
        (Returns (Rejected (TypeError
           (''Invalid unlock secret: '' @ toString unlock_secret @ ''.''))), w)
      else
        (let (tx, w') = invoke_method (cgw_methods this) ''progressRedeem''
                          [messageHash, unlock_secret] w
         in (Returns (Resolved tx), w')))"

text \<open>\<^verbatim>\<open>EIP20CoGateway.progressRedeem\<close>\<close>

definition progressRedeem ::
  "externals \<Rightarrow> EIP20CoGateway \<Rightarrow> jsval \<Rightarrow> jsval \<Rightarrow> jsval \<Rightarrow> world
     \<Rightarrow> jsval promise completion \<times> world" where
  "progressRedeem ext this messageHash unlock_secret txOptions w =
     (if \<not> truthy txOptions then
        (Returns (Rejected (TypeError
           (''Invalid transaction options: '' @ toString txOptions @ ''.''))), w)
      else if \<not> isAddress ext (get_prop (heap w) txOptions ''from'') then
        (Returns (Rejected (TypeError
           (''Invalid from address '' @ toString (get_prop (heap w) txOptions ''from'')
              @ '' in transaction options.''))), w)
      else
        then_sendTransaction (progressRedeemRawTx this messageHash unlock_secret w) txOptions)"

text \<open>
  The memoised reads of \<^verbatim>\<open>EIP20CoGateway\<close>: \<^verbatim>\<open>getBounty\<close>, \<^verbatim>\<open>getUtilityToken\<close>,
  \<^verbatim>\<open>getStateRootProviderAddress\<close>.
\<close>

definition coGateway_getBounty ::
  "EIP20CoGateway \<Rightarrow> world \<Rightarrow> jsval promise \<times> EIP20CoGateway \<times> world" where
  "coGateway_getBounty this w =
     (if truthy (cgw_bountyAmount this) then (Resolved (cgw_bountyAmount this), this, w)
      else
        (let (tx, w1) = invoke_method (cgw_methods this) ''bounty'' [] w;
             (p, w2) = chain_call tx w1
         in case p of
              Resolved bounty \<Rightarrow> (Resolved bounty, this\<lparr>cgw_bountyAmount := bounty\<rparr>, w2)
            | _ \<Rightarrow> (p, this, w2)))"

definition getUtilityToken ::
  "EIP20CoGateway \<Rightarrow> world \<Rightarrow> jsval promise \<times> EIP20CoGateway \<times> world" where
  "getUtilityToken this w =
     (if truthy (cgw_utilityToken this) then (Resolved (cgw_utilityToken this), this, w)
      else
        (let (tx, w1) = invoke_method (cgw_methods this) ''utilityToken'' [] w;
             (p, w2) = chain_call tx w1
         in case p of
              Resolved utilityToken \<Rightarrow>
                (Resolved utilityToken, this\<lparr>cgw_utilityToken := utilityToken\<rparr>, w2)
            | _ \<Rightarrow> (p, this, w2)))"

definition coGateway_getStateRootProviderAddress ::
  "EIP20CoGateway \<Rightarrow> world \<Rightarrow> jsval promise \<times> EIP20CoGateway \<times> world" where
  "coGateway_getStateRootProviderAddress this w =
     (if truthy (cgw_stateRootProviderAddress this) then
        (Resolved (cgw_stateRootProviderAddress this), this, w)
      else
        (let (tx, w1) = invoke_method (cgw_methods this) ''stateRootProvider'' [] w;
             (p, w2) = chain_call tx w1
         in case p of
              Resolved stateRootProviderAddress \<Rightarrow>
                (Resolved stateRootProviderAddress,
                 this\<lparr>cgw_stateRootProviderAddress := stateRootProviderAddress\<rparr>, w2)
            | _ \<Rightarrow> (p, this, w2)))"

text \<open>\<^verbatim>\<open>EIP20CoGateway.getNonce\<close>: an invalid address is thrown.\<close>

definition coGateway_getNonce ::
  "externals \<Rightarrow> EIP20CoGateway \<Rightarrow> jsval \<Rightarrow> world \<Rightarrow> jsval promise completion \<times> world" where
  "coGateway_getNonce ext this accountAddress w =
     (if \<not> isAddress ext accountAddress then
        (Throws (TypeError (''Invalid account address: '' @ toString accountAddress @ ''.'')), w)
      else
        (let (tx, w1) = invoke_method (cgw_methods this) ''getNonce'' [accountAddress] w;
             (p, w2) = chain_call tx w1
         in (Returns p, w2)))"

text \<open>\<^verbatim>\<open>EIP20CoGateway.getInboxMessageStatus\<close> and \<^verbatim>\<open>getOutboxMessageStatus\<close>\<close>

definition coGateway_getInboxMessageStatus ::
  "EIP20CoGateway \<Rightarrow> jsval \<Rightarrow> world \<Rightarrow> jsval promise \<times> world" where
  "coGateway_getInboxMessageStatus this messageHash w =
     (if typeof messageHash \<noteq> ''string'' then
        (Rejected (TypeError (''Invalid message hash: '' @ toString messageHash @ ''.'')), w)
      else
        (let (tx, w1) = invoke_method (cgw_methods this) ''getInboxMessageStatus'' [messageHash] w
         in chain_call tx w1))"

definition coGateway_getOutboxMessageStatus ::
  "EIP20CoGateway \<Rightarrow> jsval \<Rightarrow> world \<Rightarrow> jsval promise \<times> world" where
  "coGateway_getOutboxMessageStatus this messageHash w =
     (if typeof messageHash \<noteq> ''string'' then
        (Rejected (TypeError (''Invalid message hash: '' @ toString messageHash @ ''.'')), w)
      else
        (let (tx, w1) = invoke_method (cgw_methods this) ''getOutboxMessageStatus'' [messageHash] w
         in chain_call tx w1))"

text \<open>\<^verbatim>\<open>EIP20CoGateway.redeemRawTx\<close>\<close>

definition redeemRawTx ::
  "externals \<Rightarrow> EIP20CoGateway \<Rightarrow> jsval \<Rightarrow> jsval \<Rightarrow> jsval \<Rightarrow> jsval \<Rightarrow> jsval \<Rightarrow> jsval \<Rightarrow> world
     \<Rightarrow> tx_object promise completion \<times> world" where
  "redeemRawTx ext this amount beneficiary gasPrice gasLimit nonce hash_lock w =
     (case BN ext amount of
        Inl e \<Rightarrow> (Throws e, w)
      | Inr n \<Rightarrow>
          if \<not> n > 0 then
            (Returns (Rejected (TypeError
               (''Redeem amount must be greater than zero: '' @ toString amount @ ''.''))), w)
          else if \<not> isAddress ext beneficiary then
            (Returns (Rejected (TypeError
               (''Invalid beneficiary address: '' @ toString beneficiary @ ''.''))), w)
          else if typeof gasPrice \<noteq> ''string'' then
            (Returns (Rejected (TypeError (''Invalid gas price: '' @ toString gasPrice @ ''.''))), w)
          else if typeof gasLimit \<noteq> ''string'' then
            (Returns (Rejected (TypeError (''Invalid gas limit: '' @ toString gasLimit @ ''.''))), w)
          else if typeof nonce \<noteq> ''string'' then
            (Returns (Rejected (TypeError (''Invalid nonce: '' @ toString nonce @ ''.''))), w)
          else if typeof hash_lock \<noteq> ''string'' then
            (Returns (Rejected (TypeError (''Invalid hash lock: '' @ toString hash_lock @ ''.''))), w)
          else
            (let (tx, w') = invoke_method (cgw_methods this) ''redeem''
                              [amount, beneficiary, gasPrice, gasLimit, nonce, hash_lock] w
             in (Returns (Resolved tx), w')))"


section \<open>Facilitator\<close>

text \<open>The message status of the data model, and the error of a message that cannot progress.\<close>

datatype MessageStatus = Undeclared | Declared | Progressed | DeclaredRevocation | Revoked

definition MessageNotProgressable :: jserror where
  "MessageNotProgressable = Error ''Message cannot be progressed.''"

text \<open>
  Modelled from the spec: \<^verbatim>\<open>Facilitator.performProgressRedeem\<close>, whose source file
  (\<^verbatim>\<open>src/Facilitator/Facilitator.js\<close>) is missing; its test is present and gives the
  messages of the first three checks and of the refusal. In the words of the spec: every
  argument is validated before any I/O, the transaction options must carry a valid sender
  address \<^verbatim>\<open>from\<close>, and a failure names the field and the value; then the outbox status of
  the message is read from the CoGateway; the operation fails with
  \<open>MessageNotProgressable\<close> when the status is \<open>Undeclared\<close>, \<open>DeclaredRevocation\<close> or
  \<open>Revoked\<close>, and submits \<^verbatim>\<open>progressRedeem\<close> when it is \<open>Declared\<close>, returning what
  the submission returns. The spec gives no outcome for any other status: that is the
  parameter \<open>otherwise\<close>. The encoding of a status as the value the contract returns
  (\<^verbatim>\<open>src/utils/Message.js\<close>, missing) is the parameter \<open>encode\<close>.
\<close>

definition performProgressRedeem ::
  "externals \<Rightarrow> (MessageStatus \<Rightarrow> jsval)
     \<Rightarrow> (jsval \<Rightarrow> world \<Rightarrow> jsval promise completion \<times> world)
     \<Rightarrow> EIP20CoGateway \<Rightarrow> jsval \<Rightarrow> jsval \<Rightarrow> jsval \<Rightarrow> world
     \<Rightarrow> jsval promise completion \<times> world" where
  "performProgressRedeem ext encode otherwise coGateway messageHash unlock_secret txOptions w =
     (if typeof messageHash \<noteq> ''string'' then
        (Returns (Rejected (TypeError (''Invalid message hash: '' @ toString messageHash @ ''.''))), w)
      else if typeof unlock_secret \<noteq> ''string'' then
        (Returns (Rejected (TypeError
           (''Invalid unlock secret: '' @ toString unlock_secret @ ''.''))), w)
      else if \<not> truthy txOptions then
        (Returns (Rejected (TypeError
           (''Invalid transaction option: '' @ toString txOptions @ ''.''))), w)
      else if \<not> isAddress ext (get_prop (heap w) txOptions ''from'') then
        (Returns (Rejected (TypeError
           (''Invalid from address: '' @ toString (get_prop (heap w) txOptions ''from'') @ ''.''))), w)
      else
        (case coGateway_getOutboxMessageStatus coGateway messageHash w of
           (Rejected e, w1) \<Rightarrow> (Returns (Rejected e), w1)
         | (Pending, w1) \<Rightarrow> (Returns Pending, w1)
         | (Resolved status, w1) \<Rightarrow>
             if status = encode Undeclared \<or> status = encode DeclaredRevocation
                \<or> status = encode Revoked then
               (Returns (Rejected MessageNotProgressable), w1)
             else if status = encode Declared then
               (case progressRedeem ext coGateway messageHash unlock_secret txOptions w1 of
                  (Throws e, w2) \<Rightarrow> (Returns (Rejected e), w2)
                | (Returns p, w2) \<Rightarrow> (Returns p, w2))
             else otherwise status w1))"

section \<open>Facilitate (demo)\<close>

text \<open>
  \<^verbatim>\<open>Facilitate.waitForStateRootCommit(anchor, blockNumber)\<close>. The anchor is the sequence of
  answers of \<^verbatim>\<open>anchor.getLatestStateRootBlockHeight()\<close>: \<open>anchor i\<close> is the answer to
  the read number \<open>i\<close> (from 0). Each recursive call follows a sleep of
  \<^verbatim>\<open>TIME_DURATION\<close> (10000) milliseconds, which the model does not measure. The result is the promise and the number of reads made
  so far; \<open>None\<close> is a wait that goes on forever. The function is \<^verbatim>\<open>async\<close>: a throw
  of \<^verbatim>\<open>new BN(blockNumber)\<close> is a rejection.
\<close>

partial_function (option) waitForStateRootCommit ::
  "externals \<Rightarrow> (nat \<Rightarrow> jserror + jsval) \<Rightarrow> jsval \<Rightarrow> nat \<Rightarrow> (jsval promise \<times> nat) option" where
  "waitForStateRootCommit ext anchor blockNumber i =
     (case BN ext blockNumber of
        Inl e \<Rightarrow> Some (Rejected e, i)
      | Inr transactionBlockNumber \<Rightarrow>
          (case anchor i of
             Inl e \<Rightarrow> Some (Rejected e, Suc i)
           | Inr height \<Rightarrow>
               (case BN ext height of
                  Inl e \<Rightarrow> Some (Rejected e, Suc i)
                | Inr latestBlockHeight \<Rightarrow>
                    if transactionBlockNumber \<ge> latestBlockHeight then
                      Option.bind (waitForStateRootCommit ext anchor blockNumber (Suc i))
                        (\<lambda>(p, n). case p of
                            Rejected e \<Rightarrow> Some (Rejected e, n)
                          | Pending \<Rightarrow> Some (Pending, n)
                          | Resolved v \<Rightarrow> Some (Resolved (JBool True), n))
                    else Some (Resolved (JBool True), Suc i))))"

section \<open>Sequences of calls, and well-formed hashes\<close>

text \<open>The same operation called \<open>k\<close> times in a row, each call awaited before the next.\<close>

fun repeat_call ::
  "('s \<Rightarrow> world \<Rightarrow> 'r \<times> 's \<times> world) \<Rightarrow> nat \<Rightarrow> 's \<Rightarrow> world \<Rightarrow> 'r list \<times> 's \<times> world" where
  "repeat_call f 0 s w = ([], s, w)"
| "repeat_call f (Suc k) s w =
     (case f s w of (r, s', w') \<Rightarrow>
        (case repeat_call f k s' w' of (rs, s'', w'') \<Rightarrow> (r # rs, s'', w'')))"

text \<open>
  A well-formed 32-byte hex identifier, in the words of the spec: \<^verbatim>\<open>0x\<close> followed by 64
  hexadecimal digits.
\<close>

definition is_hex_digit :: "char \<Rightarrow> bool" where
  "is_hex_digit c = (c \<in> set ''0123456789abcdefABCDEF'')"

fun well_formed_hash :: "jsval \<Rightarrow> bool" where
  "well_formed_hash (JStr s) =
     (take 2 s = ''0x'' \<and> length s = 66 \<and> list_all is_hex_digit (drop 2 s))"
| "well_formed_hash _ = False"

text \<open>
  Read number \<open>j\<close> of the anchor makes the wait go on: it succeeds, \<^verbatim>\<open>new BN\<close> accepts the
  height, and \<^verbatim>\<open>transactionBlockNumber.gte(latestBlockHeight)\<close> holds.
\<close>

definition keeps_waiting :: "externals \<Rightarrow> (nat \<Rightarrow> jserror + jsval) \<Rightarrow> int \<Rightarrow> nat \<Rightarrow> bool" where
  "keeps_waiting ext anchor t j =
     (case anchor j of
        Inl e \<Rightarrow> False
      | Inr height \<Rightarrow> (case BN ext height of Inl e \<Rightarrow> False | Inr l \<Rightarrow> l \<le> t))"

text \<open>
  A memoised read \<open>f\<close> with its field \<open>field\<close>. On an instance whose field holds a truthy
  value, every sequence of awaited calls resolves each call with that value and leaves
  the instance and the world as they were. On an instance whose field does not, one call
  queries the chain exactly once; when the call resolves with a truthy value the field
  holds it afterwards, and when the call is rejected the instance is as it was.
\<close>

definition memoises ::
  "('s \<Rightarrow> jsval) \<Rightarrow> ('s \<Rightarrow> world \<Rightarrow> jsval promise \<times> 's \<times> world) \<Rightarrow> bool" where
  "memoises field f =
     (\<forall>this w.
        (truthy (field this) \<longrightarrow>
           (\<forall>k. repeat_call f k this w = (replicate k (Resolved (field this)), this, w)))
      \<and> (\<not> truthy (field this) \<longrightarrow>
           queries (snd (snd (f this w))) = Suc (queries w)
         \<and> (\<forall>v. fst (f this w) = Resolved v \<and> truthy v \<longrightarrow> field (fst (snd (f this w))) = v)
         \<and> (\<forall>e. fst (f this w) = Rejected e \<longrightarrow> fst (snd (f this w)) = this)))"

section \<open>Library behaviour\<close>

text \<open>
  Modelled from the library bn.js 4.11.8, which is not among the sources: the constructor
  \<^verbatim>\<open>new BN(x)\<close> in its default base 10, on the inputs listed here, \<open>None\<close> on every other.
  \<^item> \<^verbatim>\<open>undefined\<close> and the empty string: \<^verbatim>\<open>number || 0\<close> makes them 0.
  \<^item> An integer number: its value when its magnitude is below \<open>2^53\<close>; otherwise
    \<^verbatim>\<open>assert(number < 0x20000000000000)\<close> fails with \<^verbatim>\<open>Error('Assertion failed')\<close>.
  \<^item> A string of decimal digits: its decimal value.
  \<^item> A string of at most seven digits, letters and dots, which fits one limb: what
    \<^verbatim>\<open>parseBase\<close> computes, when that is not negative. \<^verbatim>\<open>parseBase\<close> checks no character:
    it takes the character code minus 48 as the digit, after mapping the letters to 10
    and up. So \<^verbatim>\<open>'1.5'\<close> is read as 85 and \<^verbatim>\<open>'abc'\<close> as 1122.
\<close>

definition bn_digit :: "char \<Rightarrow> int" where
  "bn_digit ch =
     (let c = int (of_char ch) - 48
      in if c \<ge> 49 then c - 49 + 10 else if c \<ge> 17 then c - 17 + 10 else c)"

definition parseBase :: "string \<Rightarrow> int" where
  "parseBase str = foldl (\<lambda>r ch. r * 10 + bn_digit ch) 0 str"

definition is_decimal_digit :: "char \<Rightarrow> bool" where
  "is_decimal_digit c = (c \<in> set ''0123456789'')"

definition is_limb_char :: "char \<Rightarrow> bool" where
  "is_limb_char c =
     (c \<in> set ''0123456789abcdefghijklmnopqrstuvwxyzABCDEFGHIJKLMNOPQRSTUVWXYZ.'')"

definition bn_js :: "jsval \<Rightarrow> (jserror + int) option" where
  "bn_js v =
     (case v of
        JUndefined \<Rightarrow> Some (Inr 0)
      | JNum n \<Rightarrow>
          Some (if \<bar>n\<bar> < 9007199254740992 then Inr n else Inl (Error ''Assertion failed''))
      | JStr s \<Rightarrow>
          (if s = [] then Some (Inr 0)
           else if list_all is_decimal_digit s then Some (Inr (parseBase s))
           else if length s \<le> 7 \<and> list_all is_limb_char s \<and> 0 \<le> parseBase s then
             Some (Inr (parseBase s))
           else None)
      | _ \<Rightarrow> None)"

text \<open>
  Modelled from the library web3-utils 1.0 (beta), which is not among the sources:
  \<^verbatim>\<open>keccak256\<close> on the two inputs that decide the empty secret, \<open>None\<close> on every other.
  It reports the hash of the empty input as \<^verbatim>\<open>null\<close>; given \<^verbatim>\<open>null\<close> it calls
  \<^verbatim>\<open>slice\<close> on it, and the engine throws a \<^verbatim>\<open>TypeError\<close> (whose wording depends on the
  engine).
\<close>

definition web3_keccak256 :: "jsval \<Rightarrow> (jserror + jsval) option" where
  "web3_keccak256 v =
     (case v of
        JStr s \<Rightarrow> (if s = [] then Some (Inr JNull) else None)
      | JNull \<Rightarrow> Some (Inl (TypeError ''Cannot read property 'slice' of null''))
      | _ \<Rightarrow> None)"

section \<open>Test doubles\<close>

text \<open>
  Concrete stand-ins for the external libraries and the chain, in the manner of the fakes
  of the repository's tests. They serve the concrete instances below; the general
  theorems hold for every library and chain. \<open>mock_BN\<close> reads integer numbers and four
  decimal strings as bn.js does; its answer on any other input is used by no statement
  below. \<open>mock_ext\<close> accepts one address.
\<close>

definition mock_BN :: "jsval \<Rightarrow> jserror + int" where
  "mock_BN v =
     (case v of
        JNum n \<Rightarrow> Inr n
      | JStr s \<Rightarrow>
          (case map_of [(''0'', 0), (''5'', 5), (''-3'', - 3), (''1000'', 1000)] s of
             Some n \<Rightarrow> Inr n
           | None \<Rightarrow> Inl (Error ''Invalid character''))
      | _ \<Rightarrow> Inr 0)"

definition mock_ext :: externals where
  "mock_ext =
     \<lparr> isAddress = (\<lambda>v. v = JStr ''0x0000000000000000000000000000000000000001''),
       BN = mock_BN,
       keccak256 = (\<lambda>v. Inr JNull) \<rparr>"

text \<open>A contract whose every read answers \<open>v\<close> and whose transactions succeed.\<close>

definition mock_methods :: "jsval \<Rightarrow> string \<Rightarrow> jsval list \<Rightarrow> tx_object" where
  "mock_methods v m args =
     \<lparr> call = (\<lambda>n. Inr v),
       estimateGas = (\<lambda>ob. (Inr (JStr ''21000''), ob)),
       send = (\<lambda>ob. (Inr (JBool True), ob)) \<rparr>"

text \<open>A contract whose first read fails and whose later reads answer \<open>v\<close>.\<close>

definition flaky_methods :: "jsval \<Rightarrow> string \<Rightarrow> jsval list \<Rightarrow> tx_object" where
  "flaky_methods v m args =
     \<lparr> call = (\<lambda>n. if n < 2 then Inl (Error ''connection timeout'') else Inr v),
       estimateGas = (\<lambda>ob. (Inr (JStr ''21000''), ob)),
       send = (\<lambda>ob. (Inr (JBool True), ob)) \<rparr>"

definition new_gateway :: "(string \<Rightarrow> jsval list \<Rightarrow> tx_object) \<Rightarrow> EIP20Gateway" where
  "new_gateway methods =
     \<lparr> gw_methods = methods, gw_bountyAmount = JUndefined, gw_baseTokenAddress = JUndefined,
       gw_valueTokenAddress = JUndefined, gw_stateRootProviderAddress = JUndefined \<rparr>"

definition new_coGateway :: "(string \<Rightarrow> jsval list \<Rightarrow> tx_object) \<Rightarrow> EIP20CoGateway" where
  "new_coGateway methods =
     \<lparr> cgw_methods = methods, cgw_bountyAmount = JUndefined, cgw_utilityToken = JUndefined,
       cgw_stateRootProviderAddress = JUndefined \<rparr>"

text \<open>
  A world with one object, the transaction options
  \<^verbatim>\<open>{from: '0x00...01', gas: '7500000'}\<close> at address 0, and one without \<^verbatim>\<open>gas\<close>.
\<close>

definition world_with_options :: world where
  "world_with_options =
     \<lparr> heap = [[(''from'', JStr ''0x0000000000000000000000000000000000000001''),
                 (''gas'', JStr ''7500000'')]],
       trace = [] \<rparr>"

definition world_without_gas :: world where
  "world_without_gas =
     \<lparr> heap = [[(''from'', JStr ''0x0000000000000000000000000000000000000001'')]],
       trace = [] \<rparr>"


text \<open>
  The libraries as far as they are modelled above: \<open>lib_ext\<close> answers as bn.js and
  web3-utils do on the modelled inputs, and with a fixed value on the others (read as 0,
  hashed to \<^verbatim>\<open>null\<close>). It is used at modelled inputs only.
\<close>

definition lib_ext :: externals where
  "lib_ext =
     \<lparr> isAddress = (\<lambda>v. v = JStr ''0x0000000000000000000000000000000000000001''),
       BN = (\<lambda>v. case bn_js v of Some r \<Rightarrow> r | None \<Rightarrow> Inr 0),
       keccak256 = (\<lambda>v. case web3_keccak256 v of Some r \<Rightarrow> r | None \<Rightarrow> Inr JNull) \<rparr>"

text \<open>A hash stand-in that prefixes its input, for concrete instances.\<close>

definition mock_keccak256 :: "jsval \<Rightarrow> jserror + jsval" where
  "mock_keccak256 v = (case v of JStr x \<Rightarrow> Inr (JStr (''h'' @ x)) | _ \<Rightarrow> Inr JNull)"

section \<open>Lemmas\<close>

subsection \<open>The wait loop\<close>

lemma keeps_waitingD:
  "keeps_waiting ext anchor t j \<Longrightarrow> \<exists>h l. anchor j = Inr h \<and> BN ext h = Inr l \<and> l \<le> t"
  by (cases "anchor j"; simp add: keeps_waiting_def split: sum.splits)

lemma wait_step:
  "BN ext bn = Inr t \<Longrightarrow> keeps_waiting ext anchor t i \<Longrightarrow>
   waitForStateRootCommit ext anchor bn i =
     Option.bind (waitForStateRootCommit ext anchor bn (Suc i))
       (\<lambda>(p, n). case p of
           Rejected e \<Rightarrow> Some (Rejected e, n)
         | Pending \<Rightarrow> Some (Pending, n)
         | Resolved v \<Rightarrow> Some (Resolved (JBool True), n))"
  by (subst waitForStateRootCommit.simps)
     (auto simp add: keeps_waiting_def split: sum.splits)

lemma wait_stop:
  "BN ext bn = Inr t \<Longrightarrow> \<not> keeps_waiting ext anchor t i \<Longrightarrow>
   waitForStateRootCommit ext anchor bn i =
     Some (case anchor i of
             Inl e \<Rightarrow> Rejected e
           | Inr height \<Rightarrow>
               (case BN ext height of Inl e \<Rightarrow> Rejected e | Inr l \<Rightarrow> Resolved (JBool True)),
           Suc i)"
  by (subst waitForStateRootCommit.simps)
     (auto simp add: keeps_waiting_def split: sum.splits)

text \<open>A wait that ends has met a read that stops it: by induction on the unfolding.\<close>

lemma wait_ends_at_stop:
  assumes some: "waitForStateRootCommit ext anchor bn i = Some y"
  shows "BN ext bn = Inr t \<longrightarrow> (\<exists>j\<ge>i. \<not> keeps_waiting ext anchor t j)"
proof (rule waitForStateRootCommit.raw_induct
    [where P = "\<lambda>ext anchor bn i y.
        BN ext bn = Inr t \<longrightarrow> (\<exists>j\<ge>i. \<not> keeps_waiting ext anchor t j)",
     OF _ some])
  fix rec :: "externals \<Rightarrow> (nat \<Rightarrow> jserror + jsval) \<Rightarrow> jsval \<Rightarrow> nat \<Rightarrow> (jsval promise \<times> nat) option"
  fix ext anchor bn i y
  assume IH: "\<And>ext anchor bn i y. rec ext anchor bn i = Some y \<Longrightarrow>
      BN ext bn = Inr t \<longrightarrow> (\<exists>j\<ge>i. \<not> keeps_waiting ext anchor t j)"
  assume body: "(case BN ext bn of
        Inl e \<Rightarrow> Some (Rejected e, i)
      | Inr transactionBlockNumber \<Rightarrow>
          (case anchor i of
             Inl e \<Rightarrow> Some (Rejected e, Suc i)
           | Inr height \<Rightarrow>
               (case BN ext height of
                  Inl e \<Rightarrow> Some (Rejected e, Suc i)
                | Inr latestBlockHeight \<Rightarrow>
                    if latestBlockHeight \<le> transactionBlockNumber then
                      Option.bind (rec ext anchor bn (Suc i))
                        (\<lambda>(p, n). case p of
                            Resolved v \<Rightarrow> Some (Resolved (JBool True), n)
                          | Rejected e \<Rightarrow> Some (Rejected e, n)
                          | Pending \<Rightarrow> Some (Pending, n))
                    else Some (Resolved (JBool True), Suc i)))) = Some y"
  show "BN ext bn = Inr t \<longrightarrow> (\<exists>j\<ge>i. \<not> keeps_waiting ext anchor t j)"
  proof
    assume bn: "BN ext bn = Inr t"
    show "\<exists>j\<ge>i. \<not> keeps_waiting ext anchor t j"
    proof (cases "keeps_waiting ext anchor t i")
      case False
      then show ?thesis by blast
    next
      case True
      then obtain h l where hl: "anchor i = Inr h" "BN ext h = Inr l" "l \<le> t"
        using keeps_waitingD by blast
      have "Option.bind (rec ext anchor bn (Suc i))
              (\<lambda>(p, n). case p of
                  Resolved v \<Rightarrow> Some (Resolved (JBool True), n)
                | Rejected e \<Rightarrow> Some (Rejected e, n)
                | Pending \<Rightarrow> Some (Pending, n)) = Some y"
        using body by (simp add: bn hl)
      then obtain z where z: "rec ext anchor bn (Suc i) = Some z"
        by (cases "rec ext anchor bn (Suc i)") simp_all
      have "\<exists>j\<ge>Suc i. \<not> keeps_waiting ext anchor t j"
        using IH[OF z] bn by simp
      then obtain j where "Suc i \<le> j" "\<not> keeps_waiting ext anchor t j"
        by blast
      then have "i \<le> j \<and> \<not> keeps_waiting ext anchor t j" by simp
      then show ?thesis by blast
    qed
  qed
qed

lemma wait_never:
  assumes "BN ext bn = Inr t" and "\<forall>j\<ge>i. keeps_waiting ext anchor t j"
  shows "waitForStateRootCommit ext anchor bn i = None"
proof (rule ccontr)
  assume "waitForStateRootCommit ext anchor bn i \<noteq> None"
  then obtain y where "waitForStateRootCommit ext anchor bn i = Some y" by blast
  from wait_ends_at_stop[OF this] assms show False by blast
qed

text \<open>The wait ends at the first read that stops it: by induction on its distance.\<close>

lemma wait_first:
  "BN ext bn = Inr t \<Longrightarrow> \<forall>k. i \<le> k \<and> k < i + d \<longrightarrow> keeps_waiting ext anchor t k \<Longrightarrow>
   \<not> keeps_waiting ext anchor t (i + d) \<Longrightarrow>
   waitForStateRootCommit ext anchor bn i =
     Some (case anchor (i + d) of
             Inl e \<Rightarrow> Rejected e
           | Inr height \<Rightarrow>
               (case BN ext height of Inl e \<Rightarrow> Rejected e | Inr l \<Rightarrow> Resolved (JBool True)),
           Suc (i + d))"
proof (induction d arbitrary: i)
  case 0
  then show ?case using wait_stop[of ext bn t anchor i] by simp
next
  case (Suc d)
  have kw: "keeps_waiting ext anchor t i" using Suc.prems(2) by simp
  have a: "\<forall>k. Suc i \<le> k \<and> k < Suc i + d \<longrightarrow> keeps_waiting ext anchor t k"
    using Suc.prems(2) by simp
  have b: "\<not> keeps_waiting ext anchor t (Suc i + d)"
    using Suc.prems(3) by simp
  have rec: "waitForStateRootCommit ext anchor bn (Suc i) =
     Some (case anchor (Suc i + d) of
             Inl e \<Rightarrow> Rejected e
           | Inr height \<Rightarrow>
               (case BN ext height of Inl e \<Rightarrow> Rejected e | Inr l \<Rightarrow> Resolved (JBool True)),
           Suc (Suc i + d))"
    by (rule Suc.IH[OF Suc.prems(1) a b])
  have "waitForStateRootCommit ext anchor bn i =
     Option.bind (waitForStateRootCommit ext anchor bn (Suc i))
       (\<lambda>(p, n). case p of
           Rejected e \<Rightarrow> Some (Rejected e, n)
         | Pending \<Rightarrow> Some (Pending, n)
         | Resolved v \<Rightarrow> Some (Resolved (JBool True), n))"
    by (rule wait_step[OF Suc.prems(1) kw])
  also have "\<dots> = Some (case anchor (i + Suc d) of
             Inl e \<Rightarrow> Rejected e
           | Inr height \<Rightarrow>
               (case BN ext height of Inl e \<Rightarrow> Rejected e | Inr l \<Rightarrow> Resolved (JBool True)),
           Suc (i + Suc d))"
    unfolding rec by (simp split: sum.splits)
  finally show ?case .
qed

lemma wait_settles:
  assumes bn: "BN ext bn = Inr t" and ex: "\<exists>j\<ge>i. \<not> keeps_waiting ext anchor t j"
  shows "waitForStateRootCommit ext anchor bn i \<noteq> None"
proof -
  define P where "P = (\<lambda>j. i \<le> j \<and> \<not> keeps_waiting ext anchor t j)"
  have exP: "\<exists>j. P j" using ex unfolding P_def by blast
  define j where "j = (LEAST j. P j)"
  have Pj: "P j" unfolding j_def using exP by (rule LeastI_ex)
  have least: "\<And>k. k < j \<Longrightarrow> \<not> P k" unfolding j_def by (rule not_less_Least)
  have ij: "i \<le> j" using Pj unfolding P_def by simp
  define d where "d = j - i"
  have d: "i + d = j" using ij unfolding d_def by simp
  have low: "\<forall>k. i \<le> k \<and> k < i + d \<longrightarrow> keeps_waiting ext anchor t k"
  proof (intro allI impI)
    fix k assume k: "i \<le> k \<and> k < i + d"
    then have "\<not> P k" using least d by simp
    then show "keeps_waiting ext anchor t k" using k unfolding P_def by simp
  qed
  have stop: "\<not> keeps_waiting ext anchor t (i + d)"
    using Pj unfolding P_def d by simp
  show ?thesis
    unfolding wait_first[OF bn low stop] by simp
qed

subsection \<open>Submitting a transaction\<close>

lemma snd_chain_call: "snd (chain_call tx w) = w\<lparr>trace := trace w @ [Call]\<rparr>"
  by (cases "call tx (length (trace w))") (simp_all add: chain_call_def)


subsection \<open>Memoised reads\<close>

lemma repeat_call_fixed:
  "f s w = (r, s, w) \<Longrightarrow> repeat_call f k s w = (replicate k r, s, w)"
  by (induction k) simp_all

subsection \<open>Test doubles\<close>


subsection \<open>Library behaviour\<close>

lemma bn_js_examples:
  "bn_js JUndefined = Some (Inr 0)"
  "bn_js (JStr ''1.5'') = Some (Inr 85)"
  "bn_js (JStr ''abc'') = Some (Inr 1122)"
  by (simp_all add: bn_js_def parseBase_def bn_digit_def is_decimal_digit_def is_limb_char_def)

lemma bn_js_big:
  "9007199254740992 \<le> \<bar>m\<bar> \<Longrightarrow> bn_js (JNum m) = Some (Inl (Error ''Assertion failed''))"
  by (simp add: bn_js_def)

lemma stakeRawTx_throws_iff:
  "(stakeRawTx ext g amount b gp gl n hl w = (Throws e, w)) = (BN ext amount = Inl e)"
  by (cases "BN ext amount") (simp_all add: stakeRawTx_def invoke_method_def)

lemma redeemRawTx_throws_iff:
  "(redeemRawTx ext cg amount b gp gl n hl w = (Throws e, w)) = (BN ext amount = Inl e)"
  by (cases "BN ext amount") (simp_all add: redeemRawTx_def invoke_method_def)

lemma stakeRawTx_amount_error:
  "(stakeRawTx ext g amount b gp gl n hl w =
        (Returns (Rejected (TypeError
           (''Stake amount must be greater than zero: '' @ toString amount @ ''.''))), w))
     = (\<exists>k. BN ext amount = Inr k \<and> k \<le> 0)"
  by (cases "BN ext amount") (auto simp add: stakeRawTx_def invoke_method_def)

lemma redeemRawTx_amount_error:
  "(redeemRawTx ext cg amount b gp gl n hl w =
        (Returns (Rejected (TypeError
           (''Redeem amount must be greater than zero: '' @ toString amount @ ''.''))), w))
     = (\<exists>k. BN ext amount = Inr k \<and> k \<le> 0)"
  by (cases "BN ext amount") (auto simp add: redeemRawTx_def invoke_method_def)

lemma lib_ext_agrees: "\<forall>v r. bn_js v = Some r \<longrightarrow> BN lib_ext v = r"
  by (simp add: lib_ext_def)

subsection \<open>Progressing a redeem\<close>


text \<open>An invalid argument is refused before anything is read or sent.\<close>

lemma performProgressRedeem_validates_first:
  "\<not> (typeof mh = ''string'' \<and> typeof us = ''string'' \<and> truthy txo
      \<and> isAddress ext (get_prop (heap w) txo ''from'')) \<Longrightarrow>
   \<exists>m. performProgressRedeem ext encode otherwise cg mh us txo w
         = (Returns (Rejected (TypeError m)), w)"
  by (auto simp add: performProgressRedeem_def)

subsection \<open>The hash lock\<close>

text \<open>
  A record is returned exactly when both hashes are computed, and it then holds the secret,
  its hash and the hash of that hash.
\<close>

lemma toHashLock_returns_iff:
  "(toHashLock ext s = Returns r) =
     (secret r = s \<and> keccak256 ext s = Inr (unlockSecret r)
      \<and> keccak256 ext (unlockSecret r) = Inr (hashLock r))"
  by (cases r) (auto simp add: toHashLock_def split: sum.splits)

subsection \<open>The wait loop, continued\<close>

lemma wait_bad_block:
  "BN ext bn = Inl e \<Longrightarrow> waitForStateRootCommit ext anchor bn i = Some (Rejected e, i)"
  by (subst waitForStateRootCommit.simps) simp

subsection \<open>Memoised reads, continued\<close>

lemma memoisesI:
  assumes hit: "\<And>this w. truthy (field this) \<Longrightarrow> f this w = (Resolved (field this), this, w)"
    and miss: "\<And>this w. \<not> truthy (field this) \<Longrightarrow>
        queries (snd (snd (f this w))) = Suc (queries w)
      \<and> (\<forall>v. fst (f this w) = Resolved v \<and> truthy v \<longrightarrow> field (fst (snd (f this w))) = v)
      \<and> (\<forall>e. fst (f this w) = Rejected e \<longrightarrow> fst (snd (f this w)) = this)"
  shows "memoises field f"
  unfolding memoises_def
proof (intro allI)
  fix this w
  show "(truthy (field this) \<longrightarrow>
           (\<forall>k. repeat_call f k this w = (replicate k (Resolved (field this)), this, w)))
      \<and> (\<not> truthy (field this) \<longrightarrow>
           queries (snd (snd (f this w))) = Suc (queries w)
         \<and> (\<forall>v. fst (f this w) = Resolved v \<and> truthy v \<longrightarrow> field (fst (snd (f this w))) = v)
         \<and> (\<forall>e. fst (f this w) = Rejected e \<longrightarrow> fst (snd (f this w)) = this))"
  proof (rule conjI; rule impI)
    assume "truthy (field this)"
    then show "\<forall>k. repeat_call f k this w = (replicate k (Resolved (field this)), this, w)"
      by (intro allI repeat_call_fixed hit)
  next
    assume "\<not> truthy (field this)"
    from miss[OF this, of w]
    show "queries (snd (snd (f this w))) = Suc (queries w)
         \<and> (\<forall>v. fst (f this w) = Resolved v \<and> truthy v \<longrightarrow> field (fst (snd (f this w))) = v)
         \<and> (\<forall>e. fst (f this w) = Rejected e \<longrightarrow> fst (snd (f this w)) = this)" .
  qed
qed

lemma memoises_gateway_getBounty: "memoises gw_bountyAmount gateway_getBounty"
  by (rule memoisesI)
     (auto simp add: gateway_getBounty_def invoke_method_def chain_call_def queries_def
        split: sum.splits)

lemma memoises_getBaseToken: "memoises gw_baseTokenAddress getBaseToken"
  by (rule memoisesI)
     (auto simp add: getBaseToken_def invoke_method_def chain_call_def queries_def
        split: sum.splits)

lemma memoises_getValueToken: "memoises gw_valueTokenAddress getValueToken"
  by (rule memoisesI)
     (auto simp add: getValueToken_def invoke_method_def chain_call_def queries_def
        split: sum.splits)

lemma memoises_gateway_getStateRootProviderAddress:
  "memoises gw_stateRootProviderAddress gateway_getStateRootProviderAddress"
  by (rule memoisesI)
     (auto simp add: gateway_getStateRootProviderAddress_def invoke_method_def chain_call_def
        queries_def split: sum.splits)

lemma memoises_coGateway_getBounty: "memoises cgw_bountyAmount coGateway_getBounty"
  by (rule memoisesI)
     (auto simp add: coGateway_getBounty_def invoke_method_def chain_call_def queries_def
        split: sum.splits)

lemma memoises_getUtilityToken: "memoises cgw_utilityToken getUtilityToken"
  by (rule memoisesI)
     (auto simp add: getUtilityToken_def invoke_method_def chain_call_def queries_def
        split: sum.splits)

lemma memoises_coGateway_getStateRootProviderAddress:
  "memoises cgw_stateRootProviderAddress coGateway_getStateRootProviderAddress"
  by (rule memoisesI)
     (auto simp add: coGateway_getStateRootProviderAddress_def invoke_method_def chain_call_def
        queries_def split: sum.splits)

section \<open>Theorems\<close>

text \<open>
  C1. The claim holds where both hashes are computed (\<open>toHashLock_returns_iff\<close>), and
  fails for the empty secret: with a \<^verbatim>\<open>keccak256\<close> that answers as that of web3-utils,
  the hash of the empty string is \<^verbatim>\<open>null\<close>, \<open>toHashLock\<close> hashes that \<^verbatim>\<open>null\<close>
  unguarded, and the second \<^verbatim>\<open>keccak256\<close> throws a \<^verbatim>\<open>TypeError\<close>. No record is returned.
\<close>

theorem toHashLock_empty_secret_throws:
  assumes lib: "\<forall>v r. web3_keccak256 v = Some r \<longrightarrow> keccak256 ext v = r"
  shows "\<exists>m. toHashLock ext (JStr '''') = Throws (TypeError m)"
proof -
  have first: "keccak256 ext (JStr '''') = Inr JNull"
    using lib by (simp add: web3_keccak256_def)
  have second: "keccak256 ext JNull = Inl (TypeError ''Cannot read property 'slice' of null'')"
    using lib by (simp add: web3_keccak256_def)
  show ?thesis by (simp add: toHashLock_def first second)
qed

theorem toHashLock_empty_secret_throws_witness:
  "toHashLock lib_ext (JStr '''') = Throws (TypeError ''Cannot read property 'slice' of null'')"
proof -
  have "\<forall>v r. web3_keccak256 v = Some r \<longrightarrow> keccak256 lib_ext v = r"
    by (simp add: lib_ext_def)
  from toHashLock_empty_secret_throws[OF this]
  show ?thesis by (simp add: toHashLock_def lib_ext_def web3_keccak256_def)
qed



text \<open>
  C3, as claimed: the wait fails with a timeout when the committed height never reaches
  the target. It does not: with every read answering height 0 and the transaction in
  block 5, the wait never ends.
\<close>

theorem waitForStateRootCommit_timeout_counterexample:
  "waitForStateRootCommit mock_ext (\<lambda>j. Inr (JNum 0)) (JNum 5) 0 = None"
  by (rule wait_never[where t = 5])
     (simp_all add: keeps_waiting_def mock_ext_def mock_BN_def)

text \<open>
  C3, amended. \<open>waitForStateRootCommit\<close> has no timeout and never fails with one. When
  \<^verbatim>\<open>new BN(blockNumber)\<close> throws, the wait is rejected with that error before any read.
  Otherwise, with the block number read as \<open>t\<close>, the wait started at read \<open>i\<close> goes on
  forever exactly when every read from \<open>i\<close> on succeeds with a height not greater than
  \<open>t\<close>; and it ends at the first read \<open>j\<close> that does not: rejected with the error of that
  read (or of \<^verbatim>\<open>new BN\<close> on its answer) when it fails, resolved to \<^verbatim>\<open>true\<close> when it observes
  a greater height.
\<close>

theorem waitForStateRootCommit_outcome:
  "(BN ext bn = Inl e \<longrightarrow> waitForStateRootCommit ext anchor bn i = Some (Rejected e, i))
   \<and> (BN ext bn = Inr t \<longrightarrow>
        ((waitForStateRootCommit ext anchor bn i = None)
           = (\<forall>j\<ge>i. keeps_waiting ext anchor t j))
      \<and> (\<forall>j\<ge>i. (\<forall>k. i \<le> k \<and> k < j \<longrightarrow> keeps_waiting ext anchor t k)
                  \<and> \<not> keeps_waiting ext anchor t j \<longrightarrow>
             waitForStateRootCommit ext anchor bn i =
               Some (case anchor j of
                       Inl e \<Rightarrow> Rejected e
                     | Inr height \<Rightarrow>
                         (case BN ext height of
                            Inl e \<Rightarrow> Rejected e
                          | Inr l \<Rightarrow> Resolved (JBool True)),
                     Suc j)))"
proof (intro conjI impI allI)
  assume "BN ext bn = Inl e"
  then show "waitForStateRootCommit ext anchor bn i = Some (Rejected e, i)"
    by (rule wait_bad_block)
next
  assume bn: "BN ext bn = Inr t"
  show "(waitForStateRootCommit ext anchor bn i = None) = (\<forall>j\<ge>i. keeps_waiting ext anchor t j)"
  proof
    assume none: "waitForStateRootCommit ext anchor bn i = None"
    show "\<forall>j\<ge>i. keeps_waiting ext anchor t j"
    proof (rule ccontr)
      assume "\<not> (\<forall>j\<ge>i. keeps_waiting ext anchor t j)"
      then have "\<exists>j\<ge>i. \<not> keeps_waiting ext anchor t j" by simp
      from wait_settles[OF bn this] none show False by simp
    qed
  next
    assume "\<forall>j\<ge>i. keeps_waiting ext anchor t j"
    then show "waitForStateRootCommit ext anchor bn i = None" by (rule wait_never[OF bn])
  qed
next
  fix j
  assume bn: "BN ext bn = Inr t" and ij: "i \<le> j"
    and first: "(\<forall>k. i \<le> k \<and> k < j \<longrightarrow> keeps_waiting ext anchor t k)
                  \<and> \<not> keeps_waiting ext anchor t j"
  define d where "d = j - i"
  have d: "i + d = j" using ij unfolding d_def by simp
  have low: "\<forall>k. i \<le> k \<and> k < i + d \<longrightarrow> keeps_waiting ext anchor t k"
    using first unfolding d by blast
  have stop: "\<not> keeps_waiting ext anchor t (i + d)"
    using first unfolding d by blast
  show "waitForStateRootCommit ext anchor bn i =
               Some (case anchor j of
                       Inl e \<Rightarrow> Rejected e
                     | Inr height \<Rightarrow>
                         (case BN ext height of
                            Inl e \<Rightarrow> Rejected e
                          | Inr l \<Rightarrow> Resolved (JBool True)),
                     Suc j)"
    using wait_first[OF bn low stop] unfolding d .
qed

theorem waitForStateRootCommit_outcome_witness:
  "waitForStateRootCommit mock_ext (\<lambda>j. Inr (JStr ''1000'')) (JStr ''1000'') 3 = None
   \<and> waitForStateRootCommit mock_ext
        (\<lambda>j. if j < 2 then Inr (JNum 1) else Inl (Error ''connection lost'')) (JNum 5) 0
      = Some (Rejected (Error ''connection lost''), 3)
   \<and> waitForStateRootCommit lib_ext (\<lambda>j. Inr (JNum 9)) (JNum 9007199254740992) 0
      = Some (Rejected (Error ''Assertion failed''), 0)"
proof -
  have k: "BN mock_ext (JStr ''1000'') = Inr 1000" by (simp add: mock_ext_def mock_BN_def)
  have f: "BN mock_ext (JNum 5) = Inr 5" by (simp add: mock_ext_def mock_BN_def)
  have b: "BN lib_ext (JNum 9007199254740992) = Inl (Error ''Assertion failed'')"
    using lib_ext_agrees bn_js_big[of 9007199254740992] by simp
  note none = waitForStateRootCommit_outcome
      [of mock_ext "JStr ''1000''" _ "\<lambda>j. Inr (JStr ''1000'')" 3 1000,
       THEN conjunct2, THEN mp, OF k, THEN conjunct1]
  note stop = waitForStateRootCommit_outcome
      [of mock_ext "JNum 5" _
          "\<lambda>j. if j < 2 then Inr (JNum 1) else Inl (Error ''connection lost'')" 0 5,
       THEN conjunct2, THEN mp, OF f, THEN conjunct2, THEN spec, of 2]
  note bad = waitForStateRootCommit_outcome
      [of lib_ext "JNum 9007199254740992" "Error ''Assertion failed''" "\<lambda>j. Inr (JNum 9)" 0,
       THEN conjunct1, THEN mp, OF b]
  have low: "\<forall>k. 0 \<le> k \<and> k < 2 \<longrightarrow>
      keeps_waiting mock_ext (\<lambda>j. if j < 2 then Inr (JNum 1) else Inl (Error ''connection lost'')) 5 k"
    by (simp add: keeps_waiting_def mock_ext_def mock_BN_def)
  show ?thesis
    using none stop bad low
    by (simp add: keeps_waiting_def mock_ext_def mock_BN_def)
qed

text \<open>
  C4, as claimed: the first read that observes a committed height greater than or equal
  to the target ends the wait. It does not when the height is equal: for a transaction
  in block 5 and an anchor at height 5 and then 6, the wait ends after the second read.
\<close>

theorem waitForStateRootCommit_equal_height_counterexample:
  "waitForStateRootCommit mock_ext (\<lambda>j. Inr (JNum (if j = 0 then 5 else 6))) (JNum 5) 0
     = Some (Resolved (JBool True), 2)"
  using wait_first[of mock_ext "JNum 5" 5 0 1 "\<lambda>j. Inr (JNum (if j = 0 then 5 else 6))"]
  by (simp add: keeps_waiting_def mock_ext_def mock_BN_def)

text \<open>
  C4, amended. The wait ends with success at the first read that observes a committed
  height strictly greater than the transaction's block number: when the reads \<open>i\<close> to
  \<open>j - 1\<close> succeed with heights not greater than \<open>t\<close> and read \<open>j\<close> observes \<open>l > t\<close>, the
  wait started at read \<open>i\<close> resolves to \<^verbatim>\<open>true\<close> after read \<open>j\<close>.
\<close>

theorem waitForStateRootCommit_first_greater:
  assumes bn: "BN ext bn = Inr t"
    and low: "\<forall>k. i \<le> k \<and> k < j \<longrightarrow> keeps_waiting ext anchor t k"
    and ij: "i \<le> j"
    and read: "anchor j = Inr h" and height: "BN ext h = Inr l" and greater: "t < l"
  shows "waitForStateRootCommit ext anchor bn i = Some (Resolved (JBool True), Suc j)"
proof -
  define d where "d = j - i"
  have d: "i + d = j" using ij unfolding d_def by simp
  have low': "\<forall>k. i \<le> k \<and> k < i + d \<longrightarrow> keeps_waiting ext anchor t k"
    using low unfolding d .
  have stop: "\<not> keeps_waiting ext anchor t (i + d)"
    unfolding d using read height greater by (simp add: keeps_waiting_def)
  show ?thesis
    using wait_first[OF bn low' stop] unfolding d by (simp add: read height)
qed

theorem waitForStateRootCommit_first_greater_witness:
  "waitForStateRootCommit mock_ext (\<lambda>j. Inr (JNum (int j))) (JNum 2) 0
     = Some (Resolved (JBool True), 4)"
proof -
  have bn: "BN mock_ext (JNum 2) = Inr 2" by (simp add: mock_ext_def mock_BN_def)
  have low: "\<forall>k. 0 \<le> k \<and> k < 3 \<longrightarrow> keeps_waiting mock_ext (\<lambda>j. Inr (JNum (int j))) 2 k"
    by (simp add: keeps_waiting_def mock_ext_def mock_BN_def)
  have h: "BN mock_ext (JNum 3) = Inr 3" by (simp add: mock_ext_def mock_BN_def)
  show ?thesis
    using waitForStateRootCommit_first_greater
      [OF bn low, of "JNum 3" 3] h
    by simp
qed

text \<open>
  C8. \<open>sendTransaction\<close> leaves every object of the caller's store as it was, the
  options object it was given among them: it allocates one new object, the copy, and the
  gas estimate and whatever \<^verbatim>\<open>estimateGas\<close> and \<^verbatim>\<open>send\<close> do to their argument are written
  there.
\<close>

theorem sendTransaction_frame:
  "take (length (heap w)) (heap (snd (sendTransaction tx txOption w))) = heap w
   \<and> length (heap (snd (sendTransaction tx txOption w))) = Suc (length (heap w))"
  by (simp add: sendTransaction_def Let_def split: prod.splits sum.splits)

theorem sendTransaction_frame_witness:
  "take (length (heap world_without_gas))
     (heap (snd (sendTransaction (mock_methods JNull ''stake'' []) (JRef 0) world_without_gas)))
     = heap world_without_gas
   \<and> heap (snd (sendTransaction (mock_methods JNull ''stake'' []) (JRef 0) world_without_gas)) ! 1
     = [(''from'', JStr ''0x0000000000000000000000000000000000000001''),
        (''gas'', JStr ''21000'')]"
  using sendTransaction_frame[of world_without_gas "mock_methods JNull ''stake'' []" "JRef 0"]
  by (simp add: sendTransaction_def Let_def mock_methods_def world_without_gas_def
      own_props_def assign_def get_prop_def)

text \<open>
  C9. For an account address that \<^verbatim>\<open>isAddress\<close> refuses, \<^verbatim>\<open>EIP20CoGateway.getNonce\<close>
  throws its \<^verbatim>\<open>TypeError\<close>, while \<^verbatim>\<open>EIP20Gateway.getNonce\<close> returns a promise rejected
  with the same error; neither touches the chain.
\<close>

theorem getNonce_channels:
  "\<not> isAddress ext a \<Longrightarrow>
     coGateway_getNonce ext cg a w =
       (Throws (TypeError (''Invalid account address: '' @ toString a @ ''.'')), w)
   \<and> gateway_getNonce ext g a w =
       (Returns (Rejected (TypeError (''Invalid account address: '' @ toString a @ ''.''))), w)"
  by (simp add: coGateway_getNonce_def gateway_getNonce_def)

theorem getNonce_channels_witness:
  "coGateway_getNonce mock_ext (new_coGateway (mock_methods (JStr ''7''))) (JStr ''0x123'')
       world_with_options
     = (Throws (TypeError ''Invalid account address: 0x123.''), world_with_options)
   \<and> gateway_getNonce mock_ext (new_gateway (mock_methods (JStr ''7''))) (JStr ''0x123'')
       world_with_options
     = (Returns (Rejected (TypeError ''Invalid account address: 0x123.'')), world_with_options)"
  using getNonce_channels[of mock_ext "JStr ''0x123''"
      "new_coGateway (mock_methods (JStr ''7''))" world_with_options
      "new_gateway (mock_methods (JStr ''7''))"]
  by (simp add: mock_ext_def)

text \<open>
  C10, as claimed: an amount that is \<^verbatim>\<open>undefined\<close>, a non-numeric string or a decimal like
  \<^verbatim>\<open>'1.5'\<close> makes \<open>stakeRawTx\<close> throw. It does not: bn.js reads \<^verbatim>\<open>undefined\<close> as 0, and
  the result is the rejected promise "amount must be greater than zero"; it reads
  \<^verbatim>\<open>'1.5'\<close> as 85, and the amount passes: the transaction object is built.
\<close>

theorem rawTx_unparseable_amount_counterexample:
  "stakeRawTx lib_ext (new_gateway (mock_methods JNull)) JUndefined
       (JStr ''0x0000000000000000000000000000000000000001'') (JStr ''1'') (JStr ''2'')
       (JStr ''3'') (JStr ''0xab'') world_with_options
     = (Returns (Rejected (TypeError ''Stake amount must be greater than zero: undefined.'')),
        world_with_options)
   \<and> stakeRawTx lib_ext (new_gateway (mock_methods JNull)) (JStr ''1.5'')
       (JStr ''0x0000000000000000000000000000000000000001'') (JStr ''1'') (JStr ''2'')
       (JStr ''3'') (JStr ''0xab'') world_with_options
     = (Returns (Resolved (mock_methods JNull ''stake''
          [JStr ''1.5'', JStr ''0x0000000000000000000000000000000000000001'', JStr ''1'',
           JStr ''2'', JStr ''3'', JStr ''0xab''])),
        world_with_options\<lparr>trace := [Method ''stake''
          [JStr ''1.5'', JStr ''0x0000000000000000000000000000000000000001'', JStr ''1'',
           JStr ''2'', JStr ''3'', JStr ''0xab'']]\<rparr>)"
proof -
  have u: "BN lib_ext JUndefined = Inr 0" using lib_ext_agrees bn_js_examples(1) by blast
  have d: "BN lib_ext (JStr ''1.5'') = Inr 85" using lib_ext_agrees bn_js_examples(2) by blast
  have ad: "isAddress lib_ext (JStr ''0x0000000000000000000000000000000000000001'')"
    by (simp add: lib_ext_def)
  show ?thesis
    by (simp add: stakeRawTx_def u d ad invoke_method_def world_with_options_def new_gateway_def)
qed

text \<open>
  C10, amended. \<open>stakeRawTx\<close> and \<open>redeemRawTx\<close> throw synchronously, returning no promise,
  exactly when \<^verbatim>\<open>new BN(amount)\<close> throws, and reject with "amount must be greater than
  zero" exactly when \<^verbatim>\<open>new BN\<close> reads the amount as an integer not greater than zero.
  With bn.js 4.11.8 a number of magnitude \<open>2^53\<close> or more is thrown on; \<^verbatim>\<open>undefined\<close> is
  read as 0 and gets the rejection; \<^verbatim>\<open>'abc'\<close> and \<^verbatim>\<open>'1.5'\<close> are read as 1122 and 85,
  so neither is thrown on nor rejected for its amount.
\<close>

theorem rawTx_amount_channels:
  assumes lib: "\<forall>v r. bn_js v = Some r \<longrightarrow> BN ext v = r"
  shows "(stakeRawTx ext g amount b gp gl n hl w = (Throws e, w)) = (BN ext amount = Inl e)
       \<and> (redeemRawTx ext cg amount b gp gl n hl w = (Throws e, w)) = (BN ext amount = Inl e)
       \<and> (stakeRawTx ext g amount b gp gl n hl w =
            (Returns (Rejected (TypeError
               (''Stake amount must be greater than zero: '' @ toString amount @ ''.''))), w))
           = (\<exists>k. BN ext amount = Inr k \<and> k \<le> 0)
       \<and> (redeemRawTx ext cg amount b gp gl n hl w =
            (Returns (Rejected (TypeError
               (''Redeem amount must be greater than zero: '' @ toString amount @ ''.''))), w))
           = (\<exists>k. BN ext amount = Inr k \<and> k \<le> 0)
       \<and> stakeRawTx ext g JUndefined b gp gl n hl w =
            (Returns (Rejected (TypeError ''Stake amount must be greater than zero: undefined.'')), w)
       \<and> redeemRawTx ext cg JUndefined b gp gl n hl w =
            (Returns (Rejected (TypeError ''Redeem amount must be greater than zero: undefined.'')), w)
       \<and> BN ext (JStr ''abc'') = Inr 1122 \<and> BN ext (JStr ''1.5'') = Inr 85
       \<and> fst (stakeRawTx ext g (JStr ''abc'') b gp gl n hl w)
            \<notin> {Throws e, Returns (Rejected (TypeError
                 ''Stake amount must be greater than zero: abc.''))}
       \<and> fst (stakeRawTx ext g (JStr ''1.5'') b gp gl n hl w)
            \<notin> {Throws e, Returns (Rejected (TypeError
                 ''Stake amount must be greater than zero: 1.5.''))}
       \<and> fst (redeemRawTx ext cg (JStr ''abc'') b gp gl n hl w)
            \<notin> {Throws e, Returns (Rejected (TypeError
                 ''Redeem amount must be greater than zero: abc.''))}
       \<and> fst (redeemRawTx ext cg (JStr ''1.5'') b gp gl n hl w)
            \<notin> {Throws e, Returns (Rejected (TypeError
                 ''Redeem amount must be greater than zero: 1.5.''))}
       \<and> (9007199254740992 \<le> \<bar>m\<bar> \<longrightarrow>
            stakeRawTx ext g (JNum m) b gp gl n hl w = (Throws (Error ''Assertion failed''), w)
          \<and> redeemRawTx ext cg (JNum m) b gp gl n hl w = (Throws (Error ''Assertion failed''), w))"
proof -
  have u: "BN ext JUndefined = Inr 0" using lib bn_js_examples(1) by blast
  have d: "BN ext (JStr ''1.5'') = Inr 85" using lib bn_js_examples(2) by blast
  have a: "BN ext (JStr ''abc'') = Inr 1122" using lib bn_js_examples(3) by blast
  have big: "9007199254740992 \<le> \<bar>m\<bar> \<Longrightarrow> BN ext (JNum m) = Inl (Error ''Assertion failed'')"
    using lib bn_js_big by blast
  have su: "stakeRawTx ext g JUndefined b gp gl n hl w =
            (Returns (Rejected (TypeError ''Stake amount must be greater than zero: undefined.'')), w)"
    using stakeRawTx_amount_error[of ext g JUndefined b gp gl n hl w] u by simp
  have ru: "redeemRawTx ext cg JUndefined b gp gl n hl w =
            (Returns (Rejected (TypeError ''Redeem amount must be greater than zero: undefined.'')), w)"
    using redeemRawTx_amount_error[of ext cg JUndefined b gp gl n hl w] u by simp
  have passes:
    "fst (stakeRawTx ext g (JStr ''abc'') b gp gl n hl w)
            \<notin> {Throws e, Returns (Rejected (TypeError
                 ''Stake amount must be greater than zero: abc.''))}"
    "fst (stakeRawTx ext g (JStr ''1.5'') b gp gl n hl w)
            \<notin> {Throws e, Returns (Rejected (TypeError
                 ''Stake amount must be greater than zero: 1.5.''))}"
    "fst (redeemRawTx ext cg (JStr ''abc'') b gp gl n hl w)
            \<notin> {Throws e, Returns (Rejected (TypeError
                 ''Redeem amount must be greater than zero: abc.''))}"
    "fst (redeemRawTx ext cg (JStr ''1.5'') b gp gl n hl w)
            \<notin> {Throws e, Returns (Rejected (TypeError
                 ''Redeem amount must be greater than zero: 1.5.''))}"
    by (simp_all add: stakeRawTx_def redeemRawTx_def invoke_method_def a d)
  show ?thesis
    using stakeRawTx_throws_iff[of ext g amount b gp gl n hl w e]
      redeemRawTx_throws_iff[of ext cg amount b gp gl n hl w e]
      stakeRawTx_amount_error[of ext g amount b gp gl n hl w]
      redeemRawTx_amount_error[of ext cg amount b gp gl n hl w]
      stakeRawTx_throws_iff[of ext g "JNum m" b gp gl n hl w "Error ''Assertion failed''"]
      redeemRawTx_throws_iff[of ext cg "JNum m" b gp gl n hl w "Error ''Assertion failed''"]
      su ru d a big passes
    by simp
qed

theorem rawTx_amount_channels_witness:
  "stakeRawTx lib_ext (new_gateway (mock_methods JNull)) (JNum 9007199254740992)
       (JStr ''0x0000000000000000000000000000000000000001'') (JStr ''1'') (JStr ''2'')
       (JStr ''3'') (JStr ''0xab'') world_with_options
     = (Throws (Error ''Assertion failed''), world_with_options)
   \<and> redeemRawTx lib_ext (new_coGateway (mock_methods JNull)) JUndefined
       (JStr ''0x0000000000000000000000000000000000000001'') (JStr ''1'') (JStr ''2'')
       (JStr ''3'') (JStr ''0xab'') world_with_options
     = (Returns (Rejected (TypeError ''Redeem amount must be greater than zero: undefined.'')),
        world_with_options)
   \<and> BN lib_ext (JStr ''abc'') = Inr 1122"
  using rawTx_amount_channels[OF lib_ext_agrees,
      of "new_gateway (mock_methods JNull)" _ _ _ _ _ _ world_with_options _
         "new_coGateway (mock_methods JNull)" 9007199254740992]
  by simp



text \<open>
  C6, as claimed: over any sequence of calls the chain is queried at most once. It is
  not: on a new Gateway whose first read of the bounty fails, two calls of \<open>getBounty\<close>
  query the chain twice; the first is rejected and the second resolves.
\<close>

theorem memoised_reads_counterexample:
  "queries (snd (snd (repeat_call gateway_getBounty 2
      (new_gateway (flaky_methods (JStr ''1000''))) \<lparr>heap = [], trace = []\<rparr>))) = 2
   \<and> fst (repeat_call gateway_getBounty 2
      (new_gateway (flaky_methods (JStr ''1000''))) \<lparr>heap = [], trace = []\<rparr>)
     = [Rejected (Error ''connection timeout''), Resolved (JStr ''1000'')]"
  by (simp add: numeral_2_eq_2 new_gateway_def flaky_methods_def gateway_getBounty_def
      invoke_method_def chain_call_def queries_def)

text \<open>
  C6, amended. For each memoised read of a Gateway or CoGateway (\<open>getBounty\<close>,
  \<open>getBaseToken\<close>, \<open>getValueToken\<close>, \<open>getUtilityToken\<close>, \<open>getStateRootProviderAddress\<close>):
  on an instance whose memoised field holds a truthy value, every sequence of awaited
  calls, from any world, resolves each call with that value and leaves the instance and
  the world as they were, so the chain is not queried. On an instance whose field holds
  no truthy value, a call queries the chain exactly once; when the call resolves with a
  truthy value the field holds it afterwards; when the call is rejected the instance is
  as it was, so the next call queries the chain again.
\<close>

theorem memoised_reads:
  "memoises gw_bountyAmount gateway_getBounty
   \<and> memoises gw_baseTokenAddress getBaseToken
   \<and> memoises gw_valueTokenAddress getValueToken
   \<and> memoises gw_stateRootProviderAddress gateway_getStateRootProviderAddress
   \<and> memoises cgw_bountyAmount coGateway_getBounty
   \<and> memoises cgw_utilityToken getUtilityToken
   \<and> memoises cgw_stateRootProviderAddress coGateway_getStateRootProviderAddress"
  by (intro conjI memoises_gateway_getBounty memoises_getBaseToken memoises_getValueToken
      memoises_gateway_getStateRootProviderAddress memoises_coGateway_getBounty
      memoises_getUtilityToken memoises_coGateway_getStateRootProviderAddress)

theorem memoised_reads_witness:
  "repeat_call gateway_getBounty 3
      ((new_gateway (mock_methods (JStr ''1000'')))\<lparr>gw_bountyAmount := JStr ''1000''\<rparr>)
      world_with_options
    = ([Resolved (JStr ''1000''), Resolved (JStr ''1000''), Resolved (JStr ''1000'')],
       (new_gateway (mock_methods (JStr ''1000'')))\<lparr>gw_bountyAmount := JStr ''1000''\<rparr>,
       world_with_options)
   \<and> queries (snd (snd (gateway_getBounty (new_gateway (flaky_methods (JStr ''1000'')))
        \<lparr>heap = [], trace = []\<rparr>))) = 1
   \<and> fst (snd (gateway_getBounty (new_gateway (flaky_methods (JStr ''1000'')))
        \<lparr>heap = [], trace = []\<rparr>)) = new_gateway (flaky_methods (JStr ''1000''))
   \<and> gw_bountyAmount (fst (snd (gateway_getBounty (new_gateway (mock_methods (JStr ''1000'')))
        \<lparr>heap = [], trace = []\<rparr>))) = JStr ''1000''"
proof -
  have m: "memoises gw_bountyAmount gateway_getBounty" using memoised_reads by blast
  let ?g = "(new_gateway (mock_methods (JStr ''1000'')))\<lparr>gw_bountyAmount := JStr ''1000''\<rparr>"
  have hit: "repeat_call gateway_getBounty 3 ?g world_with_options
      = (replicate 3 (Resolved (gw_bountyAmount ?g)), ?g, world_with_options)"
    using m unfolding memoises_def by (simp add: new_gateway_def)
  let ?f = "new_gateway (flaky_methods (JStr ''1000''))"
  let ?w = "\<lparr>heap = [], trace = []\<rparr>"
  have nf: "\<not> truthy (gw_bountyAmount ?f)" by (simp add: new_gateway_def)
  have miss: "queries (snd (snd (gateway_getBounty ?f ?w))) = Suc (queries ?w)
      \<and> (\<forall>e. fst (gateway_getBounty ?f ?w) = Rejected e \<longrightarrow> fst (snd (gateway_getBounty ?f ?w)) = ?f)"
    using m nf unfolding memoises_def by blast
  have rejected: "fst (gateway_getBounty ?f ?w) = Rejected (Error ''connection timeout'')"
    by (simp add: gateway_getBounty_def new_gateway_def flaky_methods_def invoke_method_def
        chain_call_def)
  let ?n = "new_gateway (mock_methods (JStr ''1000''))"
  have nn: "\<not> truthy (gw_bountyAmount ?n)" by (simp add: new_gateway_def)
  have store: "\<forall>v. fst (gateway_getBounty ?n ?w) = Resolved v \<and> truthy v \<longrightarrow>
      gw_bountyAmount (fst (snd (gateway_getBounty ?n ?w))) = v"
    using m nn unfolding memoises_def by blast
  have resolved: "fst (gateway_getBounty ?n ?w) = Resolved (JStr ''1000'')"
    by (simp add: gateway_getBounty_def new_gateway_def mock_methods_def invoke_method_def
        chain_call_def)
  show ?thesis
    using hit miss rejected store resolved
    by (simp add: numeral_3_eq_3 queries_def)
qed

text \<open>
  C7, as claimed: a message hash that is not a well-formed 32-byte hex identifier is
  refused before the chain is queried. It is not when the hash is a string: \<^verbatim>\<open>'abc'\<close> is
  passed to the contract and the chain is read.
\<close>

theorem messageStatus_malformed_string_counterexample:
  "\<not> well_formed_hash (JStr ''abc'')
   \<and> coGateway_getOutboxMessageStatus (new_coGateway (mock_methods (JStr ''0''))) (JStr ''abc'')
        \<lparr>heap = [], trace = []\<rparr>
      = (Resolved (JStr ''0''),
         \<lparr>heap = [], trace = [Method ''getOutboxMessageStatus'' [JStr ''abc''], Call]\<rparr>)
   \<and> gateway_getInboxMessageStatus (new_gateway (mock_methods (JStr ''0''))) (JStr ''abc'')
        \<lparr>heap = [], trace = []\<rparr>
      = (Resolved (JStr ''0''),
         \<lparr>heap = [], trace = [Method ''getInboxMessageStatus'' [JStr ''abc''], Call]\<rparr>)"
  by (simp add: coGateway_getOutboxMessageStatus_def gateway_getInboxMessageStatus_def
      new_coGateway_def new_gateway_def mock_methods_def invoke_method_def chain_call_def)

text \<open>
  C7, amended. \<open>getInboxMessageStatus\<close> and \<open>getOutboxMessageStatus\<close> of both classes
  reject a message hash that is not a string with the \<^verbatim>\<open>TypeError\<close> "Invalid message
  hash", leaving the world as it was (the chain is not queried); every string, well-formed
  or not, is passed to the contract method and the chain is read once.
\<close>

theorem messageStatus_rejects_non_string:
  "(typeof mh \<noteq> ''string'' \<longrightarrow>
      gateway_getInboxMessageStatus g mh w =
        (Rejected (TypeError (''Invalid message hash: '' @ toString mh @ ''.'')), w)
    \<and> gateway_getOutboxMessageStatus g mh w =
        (Rejected (TypeError (''Invalid message hash: '' @ toString mh @ ''.'')), w)
    \<and> coGateway_getInboxMessageStatus cg mh w =
        (Rejected (TypeError (''Invalid message hash: '' @ toString mh @ ''.'')), w)
    \<and> coGateway_getOutboxMessageStatus cg mh w =
        (Rejected (TypeError (''Invalid message hash: '' @ toString mh @ ''.'')), w))
   \<and> (typeof mh = ''string'' \<longrightarrow>
      snd (gateway_getInboxMessageStatus g mh w) =
        w\<lparr>trace := trace w @ [Method ''getInboxMessageStatus'' [mh], Call]\<rparr>
    \<and> snd (gateway_getOutboxMessageStatus g mh w) =
        w\<lparr>trace := trace w @ [Method ''getOutboxMessageStatus'' [mh], Call]\<rparr>
    \<and> snd (coGateway_getInboxMessageStatus cg mh w) =
        w\<lparr>trace := trace w @ [Method ''getInboxMessageStatus'' [mh], Call]\<rparr>
    \<and> snd (coGateway_getOutboxMessageStatus cg mh w) =
        w\<lparr>trace := trace w @ [Method ''getOutboxMessageStatus'' [mh], Call]\<rparr>)"
proof (cases "typeof mh = ''string''")
  case True
  then show ?thesis
    by (simp add: gateway_getInboxMessageStatus_def gateway_getOutboxMessageStatus_def
      coGateway_getInboxMessageStatus_def coGateway_getOutboxMessageStatus_def
      invoke_method_def snd_chain_call)
next
  case False
  then show ?thesis
    by (simp add: gateway_getInboxMessageStatus_def gateway_getOutboxMessageStatus_def
      coGateway_getInboxMessageStatus_def coGateway_getOutboxMessageStatus_def)
qed

theorem messageStatus_rejects_non_string_witness:
  "coGateway_getOutboxMessageStatus (new_coGateway (mock_methods (JStr ''1''))) JUndefined
       world_with_options
     = (Rejected (TypeError ''Invalid message hash: undefined.''), world_with_options)
   \<and> gateway_getInboxMessageStatus (new_gateway (mock_methods (JStr ''1''))) (JNum 34)
       world_with_options
     = (Rejected (TypeError ''Invalid message hash: 34.''), world_with_options)
   \<and> trace (snd (gateway_getOutboxMessageStatus (new_gateway (mock_methods (JStr ''1'')))
       (JStr ''0x22'') world_with_options))
     = [Method ''getOutboxMessageStatus'' [JStr ''0x22''], Call]"
  using messageStatus_rejects_non_string
      [of JUndefined "new_gateway (mock_methods (JStr ''1''))" world_with_options
          "new_coGateway (mock_methods (JStr ''1''))"]
    messageStatus_rejects_non_string
      [of "JNum 34" "new_gateway (mock_methods (JStr ''1''))" world_with_options
          "new_coGateway (mock_methods (JStr ''1''))"]
    messageStatus_rejects_non_string
      [of "JStr ''0x22''" "new_gateway (mock_methods (JStr ''1''))" world_with_options
          "new_coGateway (mock_methods (JStr ''1''))"]
  by (simp add: world_with_options_def)

end
